theory Spec2Isabelle
  imports Complex_Main "HOL-Library.Sublist"
begin

section \<open>The analysis store and the UI store (frontend/src/store/store.js)\<close>

text \<open>
  The stores are zustand stores. An action calls \<open>set\<close> with a partial state (or with
  a function from the current state to a partial state); zustand merges the partial into a
  fresh state object: the fields it names are replaced, the others are kept. In the model
  that merge is a record update of the state.

  An analysis is an object the HTTP layer has built from the response body. The store
  holds references to such objects, so the objects live in an explicit heap and the state
  holds values that point into it.
\<close>

type_synonym ref = nat

type_synonym 'obj heap = "ref \<rightharpoonup> 'obj"

datatype jsvalue = Null | Obj ref

record analysisState =
  currentAnalysis :: jsvalue
  isLoading :: bool
  error :: "string option"
  history :: "jsvalue list"

definition initialAnalysisState :: analysisState where
  "initialAnalysisState =
     \<lparr>currentAnalysis = Null, isLoading = False, error = None, history = []\<rparr>"

text \<open>\<open>state.history.slice(0, 9)\<close> is the first nine entries (fewer when the list is shorter).\<close>

definition setAnalysis :: "jsvalue \<Rightarrow> analysisState \<Rightarrow> analysisState" where
  "setAnalysis analysis state =
     state\<lparr>currentAnalysis := analysis, history := analysis # take 9 (history state)\<rparr>"

definition setLoading :: "bool \<Rightarrow> analysisState \<Rightarrow> analysisState" where
  "setLoading loading state = state\<lparr>isLoading := loading\<rparr>"

definition setError :: "string option \<Rightarrow> analysisState \<Rightarrow> analysisState" where
  "setError err state = state\<lparr>error := err\<rparr>"

definition clearError :: "analysisState \<Rightarrow> analysisState" where
  "clearError state = state\<lparr>error := None\<rparr>"

definition clearAnalysis :: "analysisState \<Rightarrow> analysisState" where
  "clearAnalysis state = state\<lparr>currentAnalysis := Null\<rparr>"

definition clearHistory :: "analysisState \<Rightarrow> analysisState" where
  "clearHistory state = state\<lparr>history := []\<rparr>"

text \<open>
  The six actions of the store as data, and what calling one does to the heap of analysis
  objects and to the state. No action writes to an object: each returns the heap it was
  given, next to the new state.
\<close>

datatype action =
    SetAnalysis jsvalue
  | SetLoading bool
  | SetError "string option"
  | ClearError
  | ClearAnalysis
  | ClearHistory

fun dispatch :: "action \<Rightarrow> 'obj heap \<times> analysisState \<Rightarrow> 'obj heap \<times> analysisState" where
  "dispatch (SetAnalysis analysis) (h, state) = (h, setAnalysis analysis state)"
| "dispatch (SetLoading loading) (h, state) = (h, setLoading loading state)"
| "dispatch (SetError err) (h, state) = (h, setError err state)"
| "dispatch ClearError (h, state) = (h, clearError state)"
| "dispatch ClearAnalysis (h, state) = (h, clearAnalysis state)"
| "dispatch ClearHistory (h, state) = (h, clearHistory state)"

fun run :: "action list \<Rightarrow> 'obj heap \<times> analysisState \<Rightarrow> 'obj heap \<times> analysisState" where
  "run [] w = w"
| "run (a # as) w = run as (dispatch a w)"

text \<open>
  The UI store. Trial ids are the registry identifiers (\<open>nct_id\<close> strings); on strings
  \<open>Array.prototype.includes\<close> and \<open>!==\<close> decide the same equality.
\<close>

record uiState =
  sidebarOpen :: bool
  activeTab :: string
  selectedTrials :: "string list"
  filters :: "(string \<times> string) list"

definition initialUIState :: uiState where
  "initialUIState =
     \<lparr>sidebarOpen = True, activeTab = ''trials'', selectedTrials = [], filters = []\<rparr>"

definition toggleSidebar :: "uiState \<Rightarrow> uiState" where
  "toggleSidebar state = state\<lparr>sidebarOpen := \<not> sidebarOpen state\<rparr>"

definition setActiveTab :: "string \<Rightarrow> uiState \<Rightarrow> uiState" where
  "setActiveTab tab state = state\<lparr>activeTab := tab\<rparr>"

definition setSelectedTrials :: "string list \<Rightarrow> uiState \<Rightarrow> uiState" where
  "setSelectedTrials trials state = state\<lparr>selectedTrials := trials\<rparr>"

definition toggleTrialSelection :: "string \<Rightarrow> uiState \<Rightarrow> uiState" where
  "toggleTrialSelection trialId state =
     state\<lparr>selectedTrials :=
       (if trialId \<in> set (selectedTrials state)
        then filter (\<lambda>id. id \<noteq> trialId) (selectedTrials state)
        else selectedTrials state @ [trialId])\<rparr>"

definition setFilters :: "(string \<times> string) list \<Rightarrow> uiState \<Rightarrow> uiState" where
  "setFilters fs state = state\<lparr>filters := fs\<rparr>"

definition clearFilters :: "uiState \<Rightarrow> uiState" where
  "clearFilters state = state\<lparr>filters := []\<rparr>"


section \<open>The analyze request (frontend/src/api/api.js)\<close>

text \<open>
  \<open>analysisAPI.analyze(query, filters = {})\<close> posts one JSON object to \<open>/analyze\<close>. The
  model is the request the call hands to the HTTP client: method, path and body. The
  default parameter stands in when the caller passes no filters.
\<close>

datatype json =
    JNull
  | JBool bool
  | JNum int
  | JStr string
  | JObj "(string \<times> json) list"

record request =
  http_method :: string
  url :: string
  body :: json

definition post :: "string \<Rightarrow> json \<Rightarrow> request" where
  "post path data = \<lparr>http_method = ''POST'', url = path, body = data\<rparr>"

definition analyze :: "string \<Rightarrow> json option \<Rightarrow> request" where
  "analyze query filters_arg =
     (let filters = (case filters_arg of None \<Rightarrow> JObj [] | Some f \<Rightarrow> f)
      in post ''/analyze''
           (JObj [(''query'', JStr query),
                  (''filters'', filters),
                  (''include_literature'', JBool True),
                  (''include_safety'', JBool True),
                  (''max_trials'', JNum 50)]))"

fun object_fields :: "json \<Rightarrow> (string \<times> json) list" where
  "object_fields (JObj kvs) = kvs"
| "object_fields _ = []"


section \<open>Strings\<close>

text \<open>
  A JavaScript string is modelled as a \<open>string\<close>, one character for each code unit.
  The vocabulary of the registries (phase names, status names, identifiers) and the class
  names of the presentation are ASCII, and on ASCII text the model is exact:
  \<open>toUpperCase\<close> and \<open>toLowerCase\<close> map the 26 letters and nothing else, \<open>\d\<close> is a
  decimal digit and \<open>\w\<close> is a letter, a digit or the underscore. The class \<open>\s\<close> and
  \<open>trim\<close> know tab, line feed, vertical tab, form feed, carriage return, space and the
  no-break space. The case mappings of JavaScript also change letters beyond ASCII, some
  of them into characters or pairs of characters that a \<open>char\<close> cannot hold; the model
  leaves every character beyond ASCII as it is. A statement about names that are not
  confined otherwise therefore asks for \<open>ascii_only\<close>.
\<close>

definition isAscii :: "char \<Rightarrow> bool" where
  "isAscii c = (of_char c < (128::nat))"

definition ascii_only :: "string \<Rightarrow> bool" where
  "ascii_only s = list_all isAscii s"

definition upper_letters :: string where
  "upper_letters = ''ABCDEFGHIJKLMNOPQRSTUVWXYZ''"

definition lower_letters :: string where
  "lower_letters = ''abcdefghijklmnopqrstuvwxyz''"

definition toUpperChar :: "char \<Rightarrow> char" where
  "toUpperChar c =
     (case map_of (zip lower_letters upper_letters) c of Some d \<Rightarrow> d | None \<Rightarrow> c)"

definition toLowerChar :: "char \<Rightarrow> char" where
  "toLowerChar c =
     (case map_of (zip upper_letters lower_letters) c of Some d \<Rightarrow> d | None \<Rightarrow> c)"

definition isSpace :: "char \<Rightarrow> bool" where
  "isSpace c =
     (c \<in> set [CHR 0x09, CHR 0x0A, CHR 0x0B, CHR 0x0C, CHR 0x0D, CHR '' '', CHR 0xA0])"

definition isDigit :: "char \<Rightarrow> bool" where
  "isDigit c = (c \<in> set ''0123456789'')"

definition isWordChar :: "char \<Rightarrow> bool" where
  "isWordChar c =
     (c \<in> set upper_letters \<or> c \<in> set lower_letters \<or> isDigit c \<or> c = CHR ''_'')"

definition toUpperCase :: "string \<Rightarrow> string" where
  "toUpperCase s = map toUpperChar s"

definition toLowerCase :: "string \<Rightarrow> string" where
  "toLowerCase s = map toLowerChar s"

definition trim :: "string \<Rightarrow> string" where
  "trim s = rev (dropWhile isSpace (rev (dropWhile isSpace s)))"

text \<open>\<open>s.includes(t)\<close>: \<open>t\<close> occurs in \<open>s\<close> as a run of consecutive characters.\<close>

fun includes_str :: "string \<Rightarrow> string \<Rightarrow> bool" where
  "includes_str [] t = (t = [])"
| "includes_str (c # cs) t = (prefix t (c # cs) \<or> includes_str cs t)"

text \<open>\<open>s.replace(/\s+/g, '_')\<close>: every maximal run of whitespace becomes one underscore.\<close>

function replace_ws :: "string \<Rightarrow> string" where
  "replace_ws [] = []"
| "replace_ws (c # cs) =
     (if isSpace c then CHR ''_'' # replace_ws (dropWhile isSpace cs) else c # replace_ws cs)"
  by pat_completeness auto
termination
  by (relation "measure length") (auto simp: length_dropWhile_le less_Suc_eq_le)

text \<open>\<open>s.replace(/_/g, ' ')\<close>.\<close>

definition replace_underscores :: "string \<Rightarrow> string" where
  "replace_underscores s = map (\<lambda>c. if c = CHR ''_'' then CHR '' '' else c) s"

text \<open>
  \<open>s.replace(/\b\w/g, c => c.toUpperCase())\<close>: \<open>\b\w\<close> matches a word character that
  stands at the start of the string or after a character that is not a word character.
  The flag says whether the character before the rest is a word character.
\<close>

fun capitalize_from :: "bool \<Rightarrow> string \<Rightarrow> string" where
  "capitalize_from prev [] = []"
| "capitalize_from prev (c # cs) =
     (if isWordChar c \<and> \<not> prev then toUpperChar c else c) # capitalize_from (isWordChar c) cs"

definition capitalize_words :: "string \<Rightarrow> string" where
  "capitalize_words s = capitalize_from False s"

text \<open>
  \<open>x.toFixed(1)\<close> for a finite number below \<open>10^21\<close>: the decimal numeral of the integer
  \<open>n\<close> for which \<open>n / 10\<close> is nearest to \<open>x\<close>, the larger \<open>n\<close> on a tie, with one digit
  after the point. A number is the real value of its double; comparisons of doubles are
  comparisons of these values.
\<close>

fun show_nat :: "nat \<Rightarrow> string" where
  "show_nat n =
     (if n < 10 then [''0123456789'' ! n]
      else show_nat (n div 10) @ [''0123456789'' ! (n mod 10)])"

declare show_nat.simps [simp del]

definition toFixed1 :: "real \<Rightarrow> string" where
  "toFixed1 x =
     (let n = nat \<lfloor>\<bar>x\<bar> * 10 + 1 / 2\<rfloor>
      in (if x < 0 then ''-'' else []) @ show_nat (n div 10) @ ''.'' @ show_nat (n mod 10))"


section \<open>Label formatting (frontend/src/components/ChartsPanel.jsx)\<close>

text \<open>
  \<open>name.match(/PHASE\s*(\d+)/i)\<close>. The match is tried at each position from the left.
  At a position the five letters of PHASE are compared without regard to case, then the
  whitespace is skipped and the longest run of digits is the captured group; whitespace
  and digits share no character, so giving back whitespace never finds a match that
  skipping all of it misses.
\<close>

definition match_phase_at :: "string \<Rightarrow> string option" where
  "match_phase_at s =
     (if map toUpperChar (take 5 s) = ''PHASE''
      then (let ds = takeWhile isDigit (dropWhile isSpace (drop 5 s))
            in if ds = [] then None else Some ds)
      else None)"

fun match_phase :: "string \<Rightarrow> string option" where
  "match_phase [] = None"
| "match_phase (c # cs) =
     (case match_phase_at (c # cs) of Some ds \<Rightarrow> Some ds | None \<Rightarrow> match_phase cs)"

text \<open>
  The status table. Its keys are upper-case, and every property an object inherits
  (\<open>constructor\<close>, \<open>toString\<close>, ...) has a lower-case letter in its name, so a lookup with an
  upper-cased name finds the table's own entries only. Every label is a non-empty string,
  which is what the truth test of the lookup asks for.
\<close>

definition statusMap :: "string \<rightharpoonup> string" where
  "statusMap =
     map_of [(''ACTIVE_NOT_RECRUITING'', ''Active''),
             (''NOT_YET_RECRUITING'', ''Not Recruiting''),
             (''ENROLLING_BY_INVITATION'', ''By Invitation''),
             (''SUSPENDED'', ''Suspended''),
             (''TERMINATED'', ''Terminated''),
             (''COMPLETED'', ''Completed''),
             (''WITHDRAWN'', ''Withdrawn''),
             (''UNKNOWN'', ''Unknown''),
             (''RECRUITING'', ''Recruiting'')]"

text \<open>The three rules of \<open>formatLabel\<close> before its default, in the order of the source.\<close>

definition na_rule :: "string \<Rightarrow> bool" where
  "na_rule upperName =
     (upperName = ''NA'' \<or> upperName = ''N/A'' \<or> upperName = ''NOT_APPLICABLE'')"

definition phase_rule :: "string \<Rightarrow> string \<Rightarrow> string option" where
  "phase_rule name upperName =
     (if includes_str upperName ''PHASE''
      then (if includes_str upperName ''EARLY'' then Some ''Early Phase 1''
            else (case match_phase name of
                    Some ds \<Rightarrow> Some (''Phase '' @ ds)
                  | None \<Rightarrow> None))
      else None)"

definition status_rule :: "string \<Rightarrow> string option" where
  "status_rule upperName = statusMap (replace_ws upperName)"

definition formatLabel :: "string \<Rightarrow> string" where
  "formatLabel name =
     (if name = [] then []
      else let upperName = trim (toUpperCase name) in
        if na_rule upperName then ''N/A''
        else (case phase_rule name upperName of
                Some label \<Rightarrow> label
              | None \<Rightarrow>
                 (case status_rule upperName of
                    Some label \<Rightarrow> label
                  | None \<Rightarrow> capitalize_words (toLowerCase (replace_underscores name)))))"


section \<open>The trials table (TrialsTable, in frontend/src/components/ChartsPanel.jsx)\<close>

text \<open>
  A trial of the response is an object that may lack a field. Calling \<open>toLowerCase\<close> on a
  missing \<open>title\<close> or \<open>nct_id\<close> throws a TypeError, which ends the whole filter; \<open>||\<close> does
  not evaluate its right side when the left is true.
\<close>

datatype jserror = TypeError

record trial =
  nct_id :: "string option"
  title :: "string option"
  status :: "string option"

definition lower_includes :: "string option \<Rightarrow> string \<Rightarrow> jserror + bool" where
  "lower_includes field searchTerm =
     (case field of
        None \<Rightarrow> Inl TypeError
      | Some s \<Rightarrow> Inr (includes_str (toLowerCase s) (toLowerCase searchTerm)))"

definition matchesSearch :: "string \<Rightarrow> 'a trial_scheme \<Rightarrow> jserror + bool" where
  "matchesSearch searchTerm t =
     (case lower_includes (title t) searchTerm of
        Inl e \<Rightarrow> Inl e
      | Inr True \<Rightarrow> Inr True
      | Inr False \<Rightarrow> lower_includes (nct_id t) searchTerm)"

definition matchesStatus :: "string \<Rightarrow> 'a trial_scheme \<Rightarrow> bool" where
  "matchesStatus statusFilter t = (statusFilter = ''all'' \<or> status t = Some statusFilter)"

definition trial_matches :: "string \<Rightarrow> string \<Rightarrow> 'a trial_scheme \<Rightarrow> jserror + bool" where
  "trial_matches searchTerm statusFilter t =
     (case matchesSearch searchTerm t of
        Inl e \<Rightarrow> Inl e
      | Inr m \<Rightarrow> Inr (m \<and> matchesStatus statusFilter t))"

text \<open>\<open>Array.prototype.filter\<close> with a callback that may throw.\<close>

fun filter_js :: "('a \<Rightarrow> jserror + bool) \<Rightarrow> 'a list \<Rightarrow> jserror + 'a list" where
  "filter_js p [] = Inr []"
| "filter_js p (x # xs) =
     (case p x of
        Inl e \<Rightarrow> Inl e
      | Inr keep \<Rightarrow>
         (case filter_js p xs of
            Inl e \<Rightarrow> Inl e
          | Inr ys \<Rightarrow> Inr (if keep then x # ys else ys)))"

definition filteredTrials ::
  "string \<Rightarrow> string \<Rightarrow> 'a trial_scheme list \<Rightarrow> jserror + 'a trial_scheme list" where
  "filteredTrials searchTerm statusFilter trials =
     filter_js (trial_matches searchTerm statusFilter) trials"


section \<open>The safety panel and the dashboard's risk card\<close>

text \<open>
  frontend/src/components/SafetyPanel.jsx and frontend/src/pages/DashboardPage.jsx read
  the \<open>safety\<close> field of the analysis; the field is absent (\<open>None\<close>) when the response
  carries no safety profile.
\<close>

record safetyProfile =
  risk_score :: real
  risk_label :: string
  adverse_events_count :: nat
  safety_summary :: string

record analysis =
  trials :: "trial list"
  safety :: "safetyProfile option"

definition getRiskColor :: "string \<Rightarrow> string" where
  "getRiskColor label =
     (let l = toLowerCase label in
      if l = ''high'' then ''text-red-600 bg-red-50 border-red-200''
      else if l = ''medium'' then ''text-yellow-600 bg-yellow-50 border-yellow-200''
      else if l = ''low'' then ''text-green-600 bg-green-50 border-green-200''
      else ''text-gray-600 bg-gray-50 border-gray-200'')"

datatype safetyView =
    Message string
  | RiskAssessment (panel_class: string) (score_text: string) (label_text: string)
      (bar_class: string) (summary_text: string)

definition SafetyPanel :: "safetyProfile option \<Rightarrow> safetyView" where
  "SafetyPanel safety_prop =
     (case safety_prop of
        None \<Rightarrow> Message ''No safety data available''
      | Some s \<Rightarrow>
          RiskAssessment
            (''card border-2 '' @ getRiskColor (risk_label s))
            (toFixed1 (risk_score s))
            (''('' @ risk_label s @ '')'')
            (''h-4 rounded-full '' @
               (if risk_label s = ''High'' then ''bg-red-600''
                else if risk_label s = ''Medium'' then ''bg-yellow-600''
                else ''bg-green-600''))
            (safety_summary s))"

text \<open>
  \<open>a?.b\<close> is absent when \<open>a\<close> is; \<open>x || d\<close> is \<open>d\<close> when \<open>x\<close> is absent, zero or the
  empty string.
\<close>

definition or_number :: "real option \<Rightarrow> real \<Rightarrow> real" where
  "or_number x d = (case x of None \<Rightarrow> d | Some v \<Rightarrow> if v = 0 then d else v)"

definition or_string :: "string option \<Rightarrow> string \<Rightarrow> string" where
  "or_string x d = (case x of None \<Rightarrow> d | Some v \<Rightarrow> if v = [] then d else v)"

definition riskScore :: "analysis option \<Rightarrow> real" where
  "riskScore current =
     or_number (map_option risk_score (Option.bind current safety)) 0"

definition riskLabel :: "analysis option \<Rightarrow> string" where
  "riskLabel current =
     or_string (map_option risk_label (Option.bind current safety)) ''N/A''"

record statCard =
  card_title :: string
  card_value :: string
  subtitle :: string
  color :: string
  bgColor :: string
  textColor :: string

text \<open>The fourth entry of \<open>statsCards\<close>, the risk score card.\<close>

definition riskScoreCard :: "analysis option \<Rightarrow> statCard" where
  "riskScoreCard current =
     (let score = riskScore current in
      \<lparr>card_title = ''Risk Score'',
       card_value = toFixed1 score @ ''/10'',
       subtitle = riskLabel current,
       color = (if score < 4 then ''bg-green-500''
                else if score < 7 then ''bg-yellow-500'' else ''bg-red-500''),
       bgColor = (if score < 4 then ''bg-green-50''
                  else if score < 7 then ''bg-yellow-50'' else ''bg-red-50''),
       textColor = (if score < 4 then ''text-green-600''
                    else if score < 7 then ''text-yellow-600'' else ''text-red-600'')\<rparr>)"

datatype dashboardView =
    NoAnalysisData
  | LoadingSpinner
  | Dashboard statCard safetyView

text \<open>
  The page reads \<open>currentAnalysis\<close> and \<open>isLoading\<close> from the analysis store: the two
  early returns, then the cards and, on the safety tab, the panel for
  \<open>currentAnalysis.safety\<close>.
\<close>

definition deref :: "'obj heap \<Rightarrow> jsvalue \<Rightarrow> 'obj option" where
  "deref h v = (case v of Null \<Rightarrow> None | Obj r \<Rightarrow> h r)"

definition DashboardPage :: "analysis heap \<times> analysisState \<Rightarrow> dashboardView" where
  "DashboardPage w =
     (let current = deref (fst w) (currentAnalysis (snd w)); loading = isLoading (snd w) in
      if current = None \<and> \<not> loading then NoAnalysisData
      else if loading then LoadingSpinner
      else Dashboard (riskScoreCard current) (SafetyPanel (Option.bind current safety)))"

text \<open>
  Modelled from the spec: the Risk Scorer (the backend's risk agent) is not among the
  sources. Its label is derived from the score by the thresholds 4.0 and 7.0: low is a
  score below 4.0, high is a score of 7.0 or more, medium otherwise.
\<close>

definition spec_risk_label :: "real \<Rightarrow> string" where
  "spec_risk_label s = (if s < 4 then ''Low'' else if 7 \<le> s then ''High'' else ''Medium'')"


section \<open>Properties of the stores\<close>

lemma dispatch_heap: "fst (dispatch a w) = fst w"
  by (cases a; cases w) simp_all

lemma run_heap: "fst (run as w) = fst w"
  by (induction as arbitrary: w) (simp_all add: dispatch_heap)

lemma dispatch_history_length:
  "length (history (snd w)) \<le> 10 \<Longrightarrow> length (history (snd (dispatch a w))) \<le> 10"
  by (cases a; cases w)
     (simp_all add: setAnalysis_def setLoading_def setError_def clearError_def
        clearAnalysis_def clearHistory_def)

lemma run_history_length:
  "length (history (snd w)) \<le> 10 \<Longrightarrow> length (history (snd (run as w))) \<le> 10"
proof (induction as arbitrary: w)
  case Nil
  then show ?case by simp
next
  case (Cons a as)
  from Cons.prems have "length (history (snd (dispatch a w))) \<le> 10"
    by (rule dispatch_history_length)
  then show ?case using Cons.IH by simp
qed

text \<open>
  C6. No store action modifies an analysis object. Whatever sequence of actions runs
  (\<open>setAnalysis\<close>, \<open>setLoading\<close>, \<open>setError\<close>, \<open>clearError\<close>, \<open>clearAnalysis\<close>,
  \<open>clearHistory\<close>), the heap of analysis objects afterwards is the heap before: every
  object a reference of \<open>currentAnalysis\<close> or \<open>history\<close> pointed to has the contents it
  had, and storing a new analysis only builds a new state around the old references.
\<close>

theorem store_actions_leave_analyses_unchanged:
  "fst (dispatch a (h, state)) = h
   \<and> fst (run as (h, state)) = h
   \<and> fst (dispatch (SetAnalysis new) (h, state)) r = h r
   \<and> history (snd (dispatch (SetAnalysis new) (h, state))) = new # take 9 (history state)"
  by (simp add: dispatch_heap run_heap setAnalysis_def)

lemma take_Cons_take9:
  "m \<le> 10 \<Longrightarrow> take m (a # take 9 ys) = take m (a # ys)"
  by (cases m) simp_all

lemma take10_append_Cons_take9:
  "take 10 (xs @ a # take 9 ys) = take 10 (xs @ a # ys)"
  by (simp add: take_Cons_take9)

lemma run_SetAnalysis_history:
  "length (history state) \<le> 10 \<Longrightarrow>
   history (snd (run (map SetAnalysis vs) (h, state))) = take 10 (rev vs @ history state)"
proof (induction vs arbitrary: state)
  case Nil
  then show ?case by simp
next
  case (Cons v vs)
  have len: "length (history (setAnalysis v state)) \<le> 10"
    by (simp add: setAnalysis_def)
  have 1: "run (map SetAnalysis (v # vs)) (h, state)
      = run (map SetAnalysis vs) (h, setAnalysis v state)" by simp
  have 2: "history (setAnalysis v state) = v # take 9 (history state)"
    by (simp add: setAnalysis_def)
  have 3: "rev (v # vs) @ history state = rev vs @ v # history state" by simp
  show ?case
    unfolding 1 Cons.IH[OF len] 2 3 by (rule take10_append_Cons_take9)
qed

text \<open>
  C8. Starting from the initial state, after every sequence of store actions the history
  holds at most 10 entries. Right after \<open>setAnalysis a\<close>, from any state, the history is
  not empty, its head is \<open>a\<close>, and behind \<open>a\<close> stand the first nine entries of the
  history before, in their order: the entries are ordered most recent first. After the
  analyses \<open>vs\<close> have been stored one after the other from the initial state, the history
  is the last ten of them, the latest first.
\<close>

theorem history_bounded_most_recent_first:
  "length (history (snd (run as (h, initialAnalysisState)))) \<le> 10
   \<and> history (setAnalysis a state) \<noteq> []
   \<and> hd (history (setAnalysis a state)) = a
   \<and> history (setAnalysis a state) = a # take 9 (history state)
   \<and> history (snd (run (map SetAnalysis vs) (h, initialAnalysisState))) = take 10 (rev vs)"
proof -
  have init: "length (history (snd (h, initialAnalysisState))) \<le> 10"
    by (simp add: initialAnalysisState_def)
  then have "length (history (snd (run as (h, initialAnalysisState)))) \<le> 10"
    by (rule run_history_length)
  moreover have
    "history (snd (run (map SetAnalysis vs) (h, initialAnalysisState))) = take 10 (rev vs)"
    using run_SetAnalysis_history[of initialAnalysisState vs h]
    by (simp add: initialAnalysisState_def)
  ultimately show ?thesis by (simp add: setAnalysis_def)
qed

text \<open>
  C9. \<open>toggleTrialSelection\<close> toggles membership: the trial id is selected afterwards
  exactly when it was not selected before; and toggling the same id twice gives a
  selection with the same members as the one started from.
\<close>

theorem toggleTrialSelection_membership:
  "(t \<in> set (selectedTrials (toggleTrialSelection t state)) \<longleftrightarrow> t \<notin> set (selectedTrials state))
   \<and> set (selectedTrials (toggleTrialSelection t (toggleTrialSelection t state)))
       = set (selectedTrials state)"
  by (auto simp: toggleTrialSelection_def)

text \<open>
  C7. For every query and every filter argument, the request \<open>analyze\<close> issues is a POST
  to \<open>/analyze\<close> whose body has exactly the fields \<open>query\<close>, \<open>filters\<close>,
  \<open>include_literature\<close>, \<open>include_safety\<close> and \<open>max_trials\<close>, in that order, with
  \<open>include_literature = true\<close>, \<open>include_safety = true\<close> and \<open>max_trials = 50\<close>; the
  query is the caller's.
\<close>

theorem analyze_request_options:
  "http_method (analyze query fs) = ''POST''
   \<and> url (analyze query fs) = ''/analyze''
   \<and> map fst (object_fields (body (analyze query fs)))
       = [''query'', ''filters'', ''include_literature'', ''include_safety'', ''max_trials'']
   \<and> map_of (object_fields (body (analyze query fs))) ''query'' = Some (JStr query)
   \<and> map_of (object_fields (body (analyze query fs))) ''include_literature'' = Some (JBool True)
   \<and> map_of (object_fields (body (analyze query fs))) ''include_safety'' = Some (JBool True)
   \<and> map_of (object_fields (body (analyze query fs))) ''max_trials'' = Some (JNum 50)"
  by (simp add: analyze_def post_def Let_def)

section \<open>Properties of the string operations\<close>

lemma includes_str_sublist: "includes_str s t \<longleftrightarrow> sublist t s"
  by (induction s) (simp_all add: sublist_Cons_right)

lemma dropWhile_keeps_block:
  "t \<noteq> [] \<Longrightarrow> \<not> P (hd t) \<Longrightarrow> \<exists>ps'. dropWhile P (ps @ t @ ss) = ps' @ t @ ss"
proof (induction ps)
  case Nil
  then show ?case by (cases t) auto
next
  case (Cons a ps)
  then show ?case by (cases "P a") auto
qed

text \<open>Trimming keeps every occurrence of a block that neither starts nor ends with whitespace.\<close>

lemma sublist_trim:
  assumes "sublist t s" "t \<noteq> []" "\<not> isSpace (hd t)" "\<not> isSpace (last t)"
  shows "sublist t (trim s)"
proof -
  from assms(1) obtain ps ss where s: "s = ps @ t @ ss" by (auto simp: sublist_def)
  from dropWhile_keeps_block[of t isSpace ps ss] assms(2,3) obtain ps' where
    1: "dropWhile isSpace (ps @ t @ ss) = ps' @ t @ ss" by blast
  have "rev t \<noteq> []" "\<not> isSpace (hd (rev t))" using assms by (simp_all add: hd_rev)
  from dropWhile_keeps_block[of "rev t" isSpace "rev ss" "rev ps'"] this obtain ss' where
    2: "dropWhile isSpace (rev ss @ rev t @ rev ps') = ss' @ rev t @ rev ps'" by blast
  have "trim s = ps' @ t @ rev ss'" by (simp add: trim_def s 1 2)
  then show ?thesis by (auto simp: sublist_def)
qed

lemma trim_sublist: "sublist (trim s) s"
proof -
  have "suffix (dropWhile isSpace (rev (dropWhile isSpace s))) (rev (dropWhile isSpace s))"
    by (rule suffix_dropWhile)
  then have "prefix (trim s) (dropWhile isSpace s)"
    by (simp add: trim_def suffix_to_prefix)
  moreover have "suffix (dropWhile isSpace s) s" by (rule suffix_dropWhile)
  ultimately show ?thesis
    by (meson prefix_imp_sublist suffix_imp_sublist sublist_order.order_trans)
qed

lemma toUpperChar_P: "toUpperChar p = CHR ''P'' \<Longrightarrow> \<not> isSpace p \<and> \<not> isDigit p"
  by (auto simp: toUpperChar_def isSpace_def isDigit_def upper_letters_def lower_letters_def
      split: if_splits)

lemma digit_not_space: "isDigit c \<Longrightarrow> \<not> isSpace c"
  by (auto simp: isDigit_def isSpace_def)

lemma toLowerChar_idem: "toLowerChar (toLowerChar c) = toLowerChar c"
  by (simp add: toLowerChar_def upper_letters_def lower_letters_def)

lemma toLowerChar_toUpperChar: "toLowerChar (toUpperChar c) = toLowerChar c"
  by (simp add: toLowerChar_def toUpperChar_def upper_letters_def lower_letters_def)

lemma toLowerChar_underscore: "toLowerChar c = CHR ''_'' \<longleftrightarrow> c = CHR ''_''"
  by (simp add: toLowerChar_def upper_letters_def lower_letters_def)

lemma toUpperChar_underscore: "toUpperChar c = CHR ''_'' \<longleftrightarrow> c = CHR ''_''"
  by (simp add: toUpperChar_def upper_letters_def lower_letters_def)

lemma length_capitalize_from: "length (capitalize_from b s) = length s"
  by (induction s arbitrary: b) simp_all

lemma capitalize_from_same_letters:
  "toLowerCase (replace_underscores (capitalize_from b (toLowerCase (replace_underscores s))))
   = toLowerCase (replace_underscores s)"
  by (induction s arbitrary: b)
     (simp_all add: toLowerCase_def replace_underscores_def toLowerChar_idem
        toLowerChar_toUpperChar toLowerChar_underscore toUpperChar_underscore)





section \<open>Properties of the phase pattern\<close>

lemma match_phase_at_found:
  assumes "map toUpperChar w = ''PHASE''" "\<forall>c\<in>set ws. isSpace c" "ds \<noteq> []"
    "\<forall>c\<in>set ds. isDigit c" "suf = [] \<or> \<not> isDigit (hd suf)"
  shows "match_phase_at (w @ ws @ ds @ suf) = Some ds"
proof -
  have "length (map toUpperChar w) = 5" by (simp add: assms(1))
  then have lw: "length w = 5" by simp
  obtain d ds' where ds: "ds = d # ds'" using assms(3) by (cases ds) auto
  have "\<not> isSpace d" using assms(4) ds digit_not_space by simp
  then have "dropWhile isSpace (ws @ ds @ suf) = ds @ suf"
    using assms(2) by (simp add: dropWhile_append2 ds)
  moreover have "takeWhile isDigit suf = []"
    using assms(5) by (cases suf) auto
  then have "takeWhile isDigit (ds @ suf) = ds"
    using assms(4) by (simp add: takeWhile_append2)
  ultimately show ?thesis
    using assms(1,3) lw by (simp add: match_phase_at_def)
qed

lemma PHASE_nth: "0 < n \<Longrightarrow> n < 5 \<Longrightarrow> ''PHASE'' ! n \<noteq> CHR ''P''"
proof -
  assume "0 < n" "n < 5"
  then have "n = 1 \<or> n = 2 \<or> n = 3 \<or> n = 4" by arith
  then show ?thesis by (auto simp: numeral_2_eq_2 numeral_3_eq_3 eval_nat_numeral)
qed

text \<open>
  A position where the pattern does not match still does not match when a text that
  starts with the letter P is put behind: P is no whitespace and no digit, and PHASE has
  no P after its first letter.
\<close>

lemma match_phase_at_append_None:
  assumes "match_phase_at xs = None" "xs \<noteq> []" "toUpperChar p = CHR ''P''"
  shows "match_phase_at (xs @ p # rest) = None"
proof (cases "map toUpperChar (take 5 xs) = ''PHASE''")
  case True
  then have "length (map toUpperChar (take 5 xs)) = 5" by simp
  then have len: "5 \<le> length xs" by simp
  let ?A = "drop 5 xs"
  from assms(1) True have tw: "takeWhile isDigit (dropWhile isSpace ?A) = []"
    by (simp add: match_phase_at_def Let_def split: if_splits)
  have "takeWhile isDigit (dropWhile isSpace (?A @ p # rest)) = []"
  proof (cases "\<forall>c\<in>set ?A. isSpace c")
    case True
    then have "dropWhile isSpace (?A @ p # rest) = p # rest"
      using toUpperChar_P[OF assms(3)] by (simp add: dropWhile_append2)
    then show ?thesis using toUpperChar_P[OF assms(3)] by simp
  next
    case False
    then obtain c where c: "c \<in> set ?A" "\<not> isSpace c" by blast
    then have dw: "dropWhile isSpace (?A @ p # rest) = dropWhile isSpace ?A @ p # rest"
      by (simp add: dropWhile_append1)
    have "dropWhile isSpace ?A \<noteq> []" using c by (auto simp: dropWhile_eq_Nil_conv)
    then obtain b B where B: "dropWhile isSpace ?A = b # B"
      by (cases "dropWhile isSpace ?A") auto
    with tw have "\<not> isDigit b" by (auto split: if_splits)
    then show ?thesis by (simp add: dw B)
  qed
  then show ?thesis using len by (simp add: match_phase_at_def)
next
  case False
  show ?thesis
  proof (cases "5 \<le> length xs")
    case True
    then show ?thesis using False by (simp add: match_phase_at_def)
  next
    case short: False
    have "map toUpperChar (take 5 (xs @ p # rest)) \<noteq> ''PHASE''"
    proof
      assume eq: "map toUpperChar (take 5 (xs @ p # rest)) = ''PHASE''"
      have "map toUpperChar (take 5 (xs @ p # rest)) ! length xs = toUpperChar p"
        using short by (simp add: nth_append)
      with eq have "''PHASE'' ! length xs = CHR ''P''" using assms(3) by simp
      moreover have "0 < length xs" "length xs < 5" using assms(2) short by simp_all
      ultimately show False using PHASE_nth by blast
    qed
    then show ?thesis by (simp add: match_phase_at_def)
  qed
qed

lemma match_phase_skip:
  "match_phase pre = None \<Longrightarrow> toUpperChar p = CHR ''P''
   \<Longrightarrow> match_phase (pre @ p # rest) = match_phase (p # rest)"
proof (induction pre)
  case Nil
  then show ?case by simp
next
  case (Cons c cs)
  from Cons.prems(1) have a: "match_phase_at (c # cs) = None" and b: "match_phase cs = None"
    by (auto split: option.splits)
  have "match_phase_at ((c # cs) @ p # rest) = None"
    by (rule match_phase_at_append_None[OF a _ Cons.prems(2)]) simp
  then show ?case using Cons.IH[OF b Cons.prems(2)] by simp
qed

lemma match_phase_found:
  assumes "map toUpperChar w = ''PHASE''" "\<forall>c\<in>set ws. isSpace c" "ds \<noteq> []"
    "\<forall>c\<in>set ds. isDigit c" "suf = [] \<or> \<not> isDigit (hd suf)" "match_phase pre = None"
  shows "match_phase (pre @ w @ ws @ ds @ suf) = Some ds"
proof -
  from assms(1) obtain p w' where w: "w = p # w'" and p: "toUpperChar p = CHR ''P''"
    by (cases w) auto
  have "match_phase (pre @ p # (w' @ ws @ ds @ suf)) = match_phase (p # (w' @ ws @ ds @ suf))"
    by (rule match_phase_skip[OF assms(6) p])
  moreover have "match_phase_at (p # (w' @ ws @ ds @ suf)) = Some ds"
    using match_phase_at_found[OF assms(1-5)] by (simp add: w)
  ultimately show ?thesis by (simp add: w)
qed

lemma na_rule_no_PHASE: "na_rule u \<Longrightarrow> \<not> includes_str u ''PHASE''"
  by (auto simp: na_rule_def)




section \<open>Properties of label formatting\<close>

lemma formatLabel_phase_digits:
  assumes "map toUpperChar w = ''PHASE''" "\<forall>c\<in>set ws. isSpace c" "ds \<noteq> []"
    "\<forall>c\<in>set ds. isDigit c" "suf = [] \<or> \<not> isDigit (hd suf)" "match_phase pre = None"
    "\<not> includes_str (toUpperCase (pre @ w @ ws @ ds @ suf)) ''EARLY''"
  shows "formatLabel (pre @ w @ ws @ ds @ suf) = ''Phase '' @ ds"
proof -
  let ?name = "pre @ w @ ws @ ds @ suf"
  let ?u = "trim (toUpperCase ?name)"
  have "sublist ''PHASE'' (toUpperCase ?name)"
    unfolding sublist_def toUpperCase_def using assms(1) by (metis map_append)
  then have "sublist ''PHASE'' ?u"
    by (rule sublist_trim) (simp_all add: isSpace_def)
  then have ph: "includes_str ?u ''PHASE''" by (simp add: includes_str_sublist)
  have "\<not> sublist ''EARLY'' ?u"
    using assms(7) trim_sublist[of "toUpperCase ?name"]
    by (auto simp: includes_str_sublist dest: sublist_order.order_trans)
  then have ea: "\<not> includes_str ?u ''EARLY''" by (simp add: includes_str_sublist)
  have na: "\<not> na_rule ?u" using ph na_rule_no_PHASE by blast
  have ne: "?name \<noteq> []" using assms(3) by simp
  have "phase_rule ?name ?u = Some (''Phase '' @ ds)"
    using ph ea match_phase_found[OF assms(1-6)] by (simp add: phase_rule_def)
  then show ?thesis using na ne by (simp add: formatLabel_def Let_def)
qed

lemma formatLabel_early:
  assumes "includes_str (toUpperCase name) ''PHASE''"
    "includes_str (toUpperCase name) ''EARLY''"
  shows "formatLabel name = ''Early Phase 1''"
proof -
  let ?u = "trim (toUpperCase name)"
  have "sublist ''PHASE'' (toUpperCase name)" using assms(1) by (simp add: includes_str_sublist)
  then have "sublist ''PHASE'' ?u"
    by (rule sublist_trim) (simp_all add: isSpace_def)
  then have ph: "includes_str ?u ''PHASE''" by (simp add: includes_str_sublist)
  have "sublist ''EARLY'' (toUpperCase name)" using assms(2) by (simp add: includes_str_sublist)
  then have "sublist ''EARLY'' ?u"
    by (rule sublist_trim) (simp_all add: isSpace_def)
  then have ea: "includes_str ?u ''EARLY''" by (simp add: includes_str_sublist)
  have na: "\<not> na_rule ?u" using ph na_rule_no_PHASE by blast
  have ne: "name \<noteq> []" using assms(1) by (auto simp: toUpperCase_def)
  have "phase_rule name ?u = Some ''Early Phase 1''"
    using ph ea by (simp add: phase_rule_def)
  then show ?thesis using na ne by (simp add: formatLabel_def Let_def)
qed

text \<open>
  C3 (as amended). For ASCII names. Let a name contain PHASE in any letter case, then any
  whitespace, then a run of digits \<open>ds\<close> that ends there, with no such occurrence further
  left, and let the name not contain EARLY in any letter case. Then \<open>formatLabel\<close>
  returns \<open>Phase\<close>, a space and \<open>ds\<close>, whatever else stands before and behind. And
  every name that contains PHASE and EARLY, in any letter case, is formatted as
  \<open>Early Phase 1\<close>, whatever digit follows PHASE.
\<close>

theorem formatLabel_phase:
  "(map toUpperChar w = ''PHASE'' \<and> (\<forall>c\<in>set ws. isSpace c) \<and> ds \<noteq> []
      \<and> (\<forall>c\<in>set ds. isDigit c) \<and> (suf = [] \<or> \<not> isDigit (hd suf))
      \<and> match_phase pre = None
      \<and> ascii_only (pre @ w @ ws @ ds @ suf)
      \<and> \<not> includes_str (toUpperCase (pre @ w @ ws @ ds @ suf)) ''EARLY''
    \<longrightarrow> formatLabel (pre @ w @ ws @ ds @ suf) = ''Phase '' @ ds)
   \<and> (ascii_only name
      \<and> includes_str (toUpperCase name) ''PHASE''
      \<and> includes_str (toUpperCase name) ''EARLY''
    \<longrightarrow> formatLabel name = ''Early Phase 1'')"
proof (intro conjI impI)
  assume "map toUpperChar w = ''PHASE'' \<and> (\<forall>c\<in>set ws. isSpace c) \<and> ds \<noteq> []
      \<and> (\<forall>c\<in>set ds. isDigit c) \<and> (suf = [] \<or> \<not> isDigit (hd suf))
      \<and> match_phase pre = None
      \<and> ascii_only (pre @ w @ ws @ ds @ suf)
      \<and> \<not> includes_str (toUpperCase (pre @ w @ ws @ ds @ suf)) ''EARLY''"
  then show "formatLabel (pre @ w @ ws @ ds @ suf) = ''Phase '' @ ds"
    by (elim conjE) (rule formatLabel_phase_digits; assumption)
next
  assume "ascii_only name
      \<and> includes_str (toUpperCase name) ''PHASE''
      \<and> includes_str (toUpperCase name) ''EARLY''"
  then show "formatLabel name = ''Early Phase 1''"
    by (elim conjE) (rule formatLabel_early; assumption)
qed

text \<open>
  The theorem at \<open>Trial in phase 3 (open label)\<close> and at \<open>Early Phase 2\<close>.
\<close>

theorem formatLabel_phase_witness:
  "map toUpperChar ''phase'' = ''PHASE''
   \<and> match_phase ''Trial in '' = None
   \<and> ascii_only ''Trial in phase 3 (open label)''
   \<and> \<not> includes_str (toUpperCase ''Trial in phase 3 (open label)'') ''EARLY''
   \<and> formatLabel ''Trial in phase 3 (open label)'' = ''Phase 3''
   \<and> ascii_only ''Early Phase 2''
   \<and> includes_str (toUpperCase ''Early Phase 2'') ''PHASE''
   \<and> includes_str (toUpperCase ''Early Phase 2'') ''EARLY''
   \<and> formatLabel ''Early Phase 2'' = ''Early Phase 1''"
proof -
  have h1: "map toUpperChar ''phase'' = ''PHASE''" by code_simp
  have h2: "\<forall>c\<in>set '' ''. isSpace c" by (simp add: isSpace_def)
  have h3: "''3'' \<noteq> []" by simp
  have h4: "\<forall>c\<in>set ''3''. isDigit c" by (simp add: isDigit_def)
  have h5: "'' (open label)'' = [] \<or> \<not> isDigit (hd '' (open label)'')"
    by (simp add: isDigit_def)
  have h6: "match_phase ''Trial in '' = None" by code_simp
  have h7: "ascii_only (''Trial in '' @ ''phase'' @ '' '' @ ''3'' @ '' (open label)'')"
    by code_simp
  have h8: "\<not> includes_str
      (toUpperCase (''Trial in '' @ ''phase'' @ '' '' @ ''3'' @ '' (open label)'')) ''EARLY''"
    by code_simp
  have g1: "ascii_only ''Early Phase 2''" by code_simp
  have g2: "includes_str (toUpperCase ''Early Phase 2'') ''PHASE''" by code_simp
  have g3: "includes_str (toUpperCase ''Early Phase 2'') ''EARLY''" by code_simp
  note inst = formatLabel_phase[of "''phase''" "'' ''" "''3''" "'' (open label)''"
      "''Trial in ''" "''Early Phase 2''"]
  from inst h1 h2 h3 h4 h5 h6 h7 h8
  have "formatLabel (''Trial in '' @ ''phase'' @ '' '' @ ''3'' @ '' (open label)'')
      = ''Phase '' @ ''3''" by blast
  then have a: "formatLabel ''Trial in phase 3 (open label)'' = ''Phase 3''" by simp
  from inst g1 g2 g3 have b: "formatLabel ''Early Phase 2'' = ''Early Phase 1''" by blast
  from h7 have h7': "ascii_only ''Trial in phase 3 (open label)''" by simp
  from h8 have h8':
    "\<not> includes_str (toUpperCase ''Trial in phase 3 (open label)'') ''EARLY''" by simp
  show ?thesis using h1 h6 h7' h8' a g1 g2 g3 b by blast
qed

text \<open>
  C3 as stated fails. \<open>EARLY_PHASE1\<close> contains PHASE followed by the digit 1 and is
  mapped to \<open>Early Phase 1\<close>, not to \<open>Phase 1\<close>; and a name with PHASE followed by 2
  whose surrounding text contains the word early is mapped to \<open>Early Phase 1\<close> as well.
\<close>

theorem formatLabel_phase_counterexample:
  "match_phase ''EARLY_PHASE1'' = Some ''1''
   \<and> formatLabel ''EARLY_PHASE1'' = ''Early Phase 1''
   \<and> formatLabel ''EARLY_PHASE1'' \<noteq> ''Phase 1''
   \<and> match_phase ''Phase 2 (early access)'' = Some ''2''
   \<and> formatLabel ''Phase 2 (early access)'' = ''Early Phase 1''
   \<and> formatLabel ''Phase 2 (early access)'' \<noteq> ''Phase 2''"
  by code_simp

text \<open>
  C4 (as amended). A non-empty ASCII name that none of the three rules recognises (not an
  N/A name, no phase label, not in the status table) is formatted by the default:
  underscores become spaces, the text is lower-cased and the first letter of each word is
  upper-cased. The result has the length of the name and is the name up to letter case
  and the exchange of underscores for spaces: no character is dropped.
\<close>

theorem formatLabel_default:
  assumes "s \<noteq> []" "ascii_only s" "\<not> na_rule (trim (toUpperCase s))"
    "phase_rule s (trim (toUpperCase s)) = None" "status_rule (trim (toUpperCase s)) = None"
  shows "formatLabel s = capitalize_words (toLowerCase (replace_underscores s))
    \<and> length (formatLabel s) = length s
    \<and> toLowerCase (replace_underscores (formatLabel s)) = toLowerCase (replace_underscores s)"
proof -
  have eq: "formatLabel s = capitalize_from False (toLowerCase (replace_underscores s))"
    using assms by (simp add: formatLabel_def Let_def capitalize_words_def)
  show ?thesis
    unfolding eq capitalize_words_def
    by (simp add: length_capitalize_from capitalize_from_same_letters)
       (simp add: toLowerCase_def replace_underscores_def)
qed

text \<open>The theorem at the status \<open>TEMPORARILY_NOT_AVAILABLE\<close>.\<close>

theorem formatLabel_default_witness:
  "''TEMPORARILY_NOT_AVAILABLE'' \<noteq> []
   \<and> ascii_only ''TEMPORARILY_NOT_AVAILABLE''
   \<and> \<not> na_rule (trim (toUpperCase ''TEMPORARILY_NOT_AVAILABLE''))
   \<and> phase_rule ''TEMPORARILY_NOT_AVAILABLE'' (trim (toUpperCase ''TEMPORARILY_NOT_AVAILABLE''))
       = None
   \<and> status_rule (trim (toUpperCase ''TEMPORARILY_NOT_AVAILABLE'')) = None
   \<and> formatLabel ''TEMPORARILY_NOT_AVAILABLE'' = ''Temporarily Not Available''
   \<and> length (formatLabel ''TEMPORARILY_NOT_AVAILABLE'') = 25"
proof -
  have h1: "''TEMPORARILY_NOT_AVAILABLE'' \<noteq> []" by simp
  have h0: "ascii_only ''TEMPORARILY_NOT_AVAILABLE''" by code_simp
  have h2: "\<not> na_rule (trim (toUpperCase ''TEMPORARILY_NOT_AVAILABLE''))" by code_simp
  have h3: "phase_rule ''TEMPORARILY_NOT_AVAILABLE''
      (trim (toUpperCase ''TEMPORARILY_NOT_AVAILABLE'')) = None" by code_simp
  have h4: "status_rule (trim (toUpperCase ''TEMPORARILY_NOT_AVAILABLE'')) = None"
    by code_simp
  have v: "capitalize_words (toLowerCase (replace_underscores ''TEMPORARILY_NOT_AVAILABLE''))
      = ''Temporarily Not Available''" by code_simp
  from formatLabel_default[OF h1 h0 h2 h3 h4] v
  have "formatLabel ''TEMPORARILY_NOT_AVAILABLE'' = ''Temporarily Not Available''"
    and "length (formatLabel ''TEMPORARILY_NOT_AVAILABLE'') = 25" by simp_all
  then show ?thesis using h1 h0 h2 h3 h4 by blast
qed

text \<open>
  C4 as stated fails: the status \<open>NO_LONGER_AVAILABLE\<close> is recognised by neither the
  phase rule nor the status table, and \<open>formatLabel\<close> does not return it unchanged.
\<close>

theorem formatLabel_passthrough_counterexample:
  "''NO_LONGER_AVAILABLE'' \<noteq> []
   \<and> ascii_only ''NO_LONGER_AVAILABLE''
   \<and> phase_rule ''NO_LONGER_AVAILABLE'' (trim (toUpperCase ''NO_LONGER_AVAILABLE'')) = None
   \<and> status_rule (trim (toUpperCase ''NO_LONGER_AVAILABLE'')) = None
   \<and> formatLabel ''NO_LONGER_AVAILABLE'' = ''No Longer Available''
   \<and> formatLabel ''NO_LONGER_AVAILABLE'' \<noteq> ''NO_LONGER_AVAILABLE''"
  by code_simp




section \<open>Properties of the trials table\<close>

lemma filter_js_subseq: "filter_js p xs = Inr ys \<Longrightarrow> subseq ys xs"
  by (induction xs arbitrary: ys) (auto split: sum.splits if_splits)

lemma filter_js_total:
  "\<forall>x\<in>set xs. \<exists>b. p x = Inr b \<Longrightarrow> filter_js p xs = Inr (filter (\<lambda>x. p x = Inr True) xs)"
  by (induction xs) (fastforce split: sum.splits)+

lemma includes_str_Nil: "includes_str s []"
  by (cases s) simp_all

lemma trial_matches_defined:
  "title t \<noteq> None \<Longrightarrow> nct_id t \<noteq> None \<Longrightarrow> \<exists>b. trial_matches term st t = Inr b"
  by (auto simp: trial_matches_def matchesSearch_def lower_includes_def
      split: sum.splits bool.splits)

lemma trial_matches_all: "title t \<noteq> None \<Longrightarrow> trial_matches [] ''all'' t = Inr True"
  by (auto simp: trial_matches_def matchesSearch_def lower_includes_def matchesStatus_def
      toLowerCase_def includes_str_Nil split: sum.splits bool.splits)

text \<open>
  C10. On a list of trials that each have a title and an \<open>nct_id\<close>, the filter returns
  a list for every search term and status filter, and with the empty search term and the
  status filter \<open>all\<close> it returns the list itself. Whenever the filter returns a list,
  that list is a subsequence of the trials given, in their order.
\<close>

theorem filteredTrials_identity_subseq:
  "((\<forall>t\<in>set ts. title t \<noteq> None \<and> nct_id t \<noteq> None)
      \<longrightarrow> filteredTrials [] ''all'' ts = Inr ts)
   \<and> ((\<forall>t\<in>set ts. title t \<noteq> None \<and> nct_id t \<noteq> None)
      \<longrightarrow> (\<exists>ys. filteredTrials term st ts = Inr ys))
   \<and> (\<forall>ys. filteredTrials term st ts = Inr ys \<longrightarrow> subseq ys ts)"
proof (intro conjI impI allI)
  assume h: "\<forall>t\<in>set ts. title t \<noteq> None \<and> nct_id t \<noteq> None"
  have "filter_js (trial_matches [] ''all'') ts
      = Inr (filter (\<lambda>x. trial_matches [] ''all'' x = Inr True) ts)"
    by (rule filter_js_total) (use h trial_matches_all in blast)
  also have "filter (\<lambda>x. trial_matches [] ''all'' x = Inr True) ts = ts"
    using h by (simp add: trial_matches_all)
  finally show "filteredTrials [] ''all'' ts = Inr ts"
    by (simp add: filteredTrials_def)
  have "filter_js (trial_matches term st) ts
      = Inr (filter (\<lambda>x. trial_matches term st x = Inr True) ts)"
    by (rule filter_js_total) (use h trial_matches_defined in blast)
  then show "\<exists>ys. filteredTrials term st ts = Inr ys"
    by (simp add: filteredTrials_def)
next
  fix ys
  assume "filteredTrials term st ts = Inr ys"
  then show "subseq ys ts" by (simp add: filteredTrials_def filter_js_subseq)
qed

text \<open>The theorem at a list of two trials, searched for \<open>ASPIRIN\<close> among the completed.\<close>

theorem filteredTrials_identity_subseq_witness:
  "filteredTrials [] ''all''
     [\<lparr>nct_id = Some ''NCT001'', title = Some ''Aspirin study'', status = Some ''Completed''\<rparr>,
      \<lparr>nct_id = Some ''NCT002'', title = Some ''Metformin trial'', status = Some ''Recruiting''\<rparr>]
   = Inr
     [\<lparr>nct_id = Some ''NCT001'', title = Some ''Aspirin study'', status = Some ''Completed''\<rparr>,
      \<lparr>nct_id = Some ''NCT002'', title = Some ''Metformin trial'', status = Some ''Recruiting''\<rparr>]
   \<and> filteredTrials ''ASPIRIN'' ''Completed''
     [\<lparr>nct_id = Some ''NCT001'', title = Some ''Aspirin study'', status = Some ''Completed''\<rparr>,
      \<lparr>nct_id = Some ''NCT002'', title = Some ''Metformin trial'', status = Some ''Recruiting''\<rparr>]
   = Inr
     [\<lparr>nct_id = Some ''NCT001'', title = Some ''Aspirin study'', status = Some ''Completed''\<rparr>]
   \<and> subseq
     [\<lparr>nct_id = Some ''NCT001'', title = Some ''Aspirin study'', status = Some ''Completed''\<rparr>]
     [\<lparr>nct_id = Some ''NCT001'', title = Some ''Aspirin study'', status = Some ''Completed''\<rparr>,
      \<lparr>nct_id = Some ''NCT002'', title = Some ''Metformin trial'', status = Some ''Recruiting''\<rparr>]"
proof -
  let ?t1 = "\<lparr>nct_id = Some ''NCT001'', title = Some ''Aspirin study'',
    status = Some ''Completed''\<rparr>"
  let ?t2 = "\<lparr>nct_id = Some ''NCT002'', title = Some ''Metformin trial'',
    status = Some ''Recruiting''\<rparr>"
  have h: "\<forall>t\<in>set [?t1, ?t2]. title t \<noteq> None \<and> nct_id t \<noteq> None" by simp
  have run: "filteredTrials ''ASPIRIN'' ''Completed'' [?t1, ?t2] = Inr [?t1]"
    by (simp add: filteredTrials_def trial_matches_def matchesSearch_def lower_includes_def
        matchesStatus_def toLowerCase_def toLowerChar_def upper_letters_def lower_letters_def)
  note inst = filteredTrials_identity_subseq[of "[?t1, ?t2]" "''ASPIRIN''" "''Completed''"]
  from inst h have "filteredTrials [] ''all'' [?t1, ?t2] = Inr [?t1, ?t2]" by blast
  moreover from inst run have "subseq [?t1] [?t1, ?t2]" by blast
  ultimately show ?thesis using run by blast
qed


section \<open>Properties of the risk presentation\<close>

lemma toLowerCase_labels:
  "toLowerCase ''Low'' = ''low''"
  "toLowerCase ''Medium'' = ''medium''"
  "toLowerCase ''High'' = ''high''"
  by (simp_all add: toLowerCase_def toLowerChar_def upper_letters_def lower_letters_def)

lemma riskScore_Some:
  "riskScore (Some a) = (case safety a of None \<Rightarrow> 0 | Some s \<Rightarrow> risk_score s)"
  by (simp add: riskScore_def or_number_def split: option.splits)

text \<open>
  C2. For a safety profile whose score lies in [0, 10] and whose label is the one the
  thresholds give, the label is Low exactly when the score is below 4, Medium exactly
  when it is at least 4 and below 7, High exactly when it is at least 7; and the colour
  classes the safety panel chooses from the label begin with the text colour and the
  background colour the dashboard's risk card chooses from the score.
\<close>

theorem risk_label_thresholds_and_colours_agree:
  assumes "0 \<le> risk_score s" "risk_score s \<le> 10"
    "risk_label s = spec_risk_label (risk_score s)" "safety a = Some s"
  shows "(risk_label s = ''Low'' \<longleftrightarrow> risk_score s < 4)
    \<and> (risk_label s = ''Medium'' \<longleftrightarrow> 4 \<le> risk_score s \<and> risk_score s < 7)
    \<and> (risk_label s = ''High'' \<longleftrightarrow> 7 \<le> risk_score s)
    \<and> prefix (textColor (riskScoreCard (Some a)) @ '' '' @ bgColor (riskScoreCard (Some a)) @ '' '')
        (getRiskColor (risk_label s))"
  using assms
  by (simp add: spec_risk_label_def getRiskColor_def riskScoreCard_def riskScore_Some Let_def
      toLowerCase_labels)

text \<open>The theorem at the score 6.9, labelled Medium.\<close>

theorem risk_label_thresholds_and_colours_agree_witness:
  "risk_label \<lparr>risk_score = 69 / 10, risk_label = ''Medium'', adverse_events_count = 120,
       safety_summary = ''moderate''\<rparr> = spec_risk_label (69 / 10)
   \<and> getRiskColor ''Medium'' = ''text-yellow-600 bg-yellow-50 border-yellow-200''
   \<and> prefix
       (textColor (riskScoreCard (Some \<lparr>trials = [], safety = Some \<lparr>risk_score = 69 / 10,
          risk_label = ''Medium'', adverse_events_count = 120, safety_summary = ''moderate''\<rparr>\<rparr>))
        @ '' '' @
        bgColor (riskScoreCard (Some \<lparr>trials = [], safety = Some \<lparr>risk_score = 69 / 10,
          risk_label = ''Medium'', adverse_events_count = 120, safety_summary = ''moderate''\<rparr>\<rparr>))
        @ '' '')
       ''text-yellow-600 bg-yellow-50 border-yellow-200''"
proof -
  let ?s = "\<lparr>risk_score = 69 / 10, risk_label = ''Medium'', adverse_events_count = 120,
    safety_summary = ''moderate''\<rparr>"
  let ?a = "\<lparr>trials = [], safety = Some ?s\<rparr>"
  have h1: "0 \<le> risk_score ?s" by simp
  have h2: "risk_score ?s \<le> 10" by simp
  have h3: "risk_label ?s = spec_risk_label (risk_score ?s)"
    by (simp add: spec_risk_label_def)
  have h4: "safety ?a = Some ?s" by simp
  have c: "getRiskColor ''Medium'' = ''text-yellow-600 bg-yellow-50 border-yellow-200''"
    by (simp add: getRiskColor_def toLowerCase_labels)
  from risk_label_thresholds_and_colours_agree[OF h1 h2 h3 h4] c
  have "prefix (textColor (riskScoreCard (Some ?a)) @ '' '' @ bgColor (riskScoreCard (Some ?a))
      @ '' '') ''text-yellow-600 bg-yellow-50 border-yellow-200''" by simp
  then show ?thesis using h3 c by simp
qed

text \<open>
  C1. The dashboard on an analysis that has no safety profile. The safety panel shows its
  message; the risk card shows the value 0.0/10 in the green classes, with the subtitle
  N/A. Value and colours are those of the card for a profile with risk score 0.
\<close>

theorem dashboard_absent_safety_risk_card:
  "DashboardPage ([0 \<mapsto> \<lparr>trials = [], safety = None\<rparr>], setAnalysis (Obj 0) initialAnalysisState)
     = Dashboard
         \<lparr>card_title = ''Risk Score'', card_value = ''0.0/10'', subtitle = ''N/A'',
          color = ''bg-green-500'', bgColor = ''bg-green-50'', textColor = ''text-green-600''\<rparr>
         (Message ''No safety data available'')
   \<and> riskScoreCard (Some \<lparr>trials = [], safety = Some \<lparr>risk_score = 0, risk_label = ''Low'',
        adverse_events_count = 0, safety_summary = []\<rparr>\<rparr>)
     = \<lparr>card_title = ''Risk Score'', card_value = ''0.0/10'', subtitle = ''Low'',
        color = ''bg-green-500'', bgColor = ''bg-green-50'', textColor = ''text-green-600''\<rparr>"
  by (simp add: DashboardPage_def deref_def setAnalysis_def initialAnalysisState_def
      SafetyPanel_def riskScoreCard_def riskScore_def riskLabel_def or_number_def or_string_def
      toFixed1_def show_nat.simps)

end
